theory Spec2Isabelle
  imports Complex_Main
begin

section \<open>JavaScript numbers\<close>

text \<open>
  The analysis engine (src/lib/dataAnalysis.ts) computes with JavaScript numbers.
  A number is modelled as a real extended with the three special values of IEEE 754
  that the code can produce by dividing by zero: \<open>NaN\<close>, \<open>+Infinity\<close> and
  \<open>-Infinity\<close>. Finite arithmetic is exact (rounding and overflow are not modelled) and
  the sign of zero is not modelled (a zero divisor is \<open>+0\<close>).
\<close>

datatype jsnum = Fin real | PInf | NInf | NaN

fun isNaN :: "jsnum \<Rightarrow> bool" where
  "isNaN NaN = True"
| "isNaN _ = False"

fun is_neg :: "jsnum \<Rightarrow> bool" where
  "is_neg (Fin a) = (a < 0)"
| "is_neg NInf = True"
| "is_neg _ = False"

fun is_zero :: "jsnum \<Rightarrow> bool" where
  "is_zero (Fin a) = (a = 0)"
| "is_zero _ = False"

fun jneg :: "jsnum \<Rightarrow> jsnum" where
  "jneg (Fin a) = Fin (- a)"
| "jneg PInf = NInf"
| "jneg NInf = PInf"
| "jneg NaN = NaN"

text \<open>\<open>a + b\<close>\<close>
fun jadd :: "jsnum \<Rightarrow> jsnum \<Rightarrow> jsnum" where
  "jadd (Fin a) (Fin b) = Fin (a + b)"
| "jadd NaN _ = NaN"
| "jadd _ NaN = NaN"
| "jadd PInf NInf = NaN"
| "jadd NInf PInf = NaN"
| "jadd PInf _ = PInf"
| "jadd _ PInf = PInf"
| "jadd NInf _ = NInf"
| "jadd _ NInf = NInf"

text \<open>\<open>a - b\<close>\<close>
definition jsub :: "jsnum \<Rightarrow> jsnum \<Rightarrow> jsnum" where
  "jsub a b = jadd a (jneg b)"

text \<open>\<open>a * b\<close>: an infinity times zero is NaN, otherwise the signs decide.\<close>
fun jmul :: "jsnum \<Rightarrow> jsnum \<Rightarrow> jsnum" where
  "jmul (Fin a) (Fin b) = Fin (a * b)"
| "jmul NaN _ = NaN"
| "jmul _ NaN = NaN"
| "jmul x y = (if is_zero x \<or> is_zero y then NaN
               else if is_neg x = is_neg y then PInf else NInf)"

text \<open>\<open>a / b\<close>: \<open>0 / 0\<close> and \<open>Infinity / Infinity\<close> are NaN, \<open>x / 0\<close> is an infinity.\<close>
fun jdiv :: "jsnum \<Rightarrow> jsnum \<Rightarrow> jsnum" where
  "jdiv (Fin a) (Fin b) =
     (if b = 0 then (if a = 0 then NaN else if a > 0 then PInf else NInf)
      else Fin (a / b))"
| "jdiv NaN _ = NaN"
| "jdiv _ NaN = NaN"
| "jdiv (Fin a) _ = Fin 0"
| "jdiv x (Fin b) = (if is_neg x = (b < 0) then PInf else NInf)"
| "jdiv _ _ = NaN"

text \<open>\<open>Math.pow(x, k)\<close> for the literal exponents 2 and 3 of the source.\<close>
fun jpow :: "jsnum \<Rightarrow> nat \<Rightarrow> jsnum" where
  "jpow x 0 = Fin 1"
| "jpow x (Suc k) = jmul x (jpow x k)"

text \<open>\<open>Math.sqrt\<close>\<close>
fun jsqrt :: "jsnum \<Rightarrow> jsnum" where
  "jsqrt (Fin a) = (if a < 0 then NaN else Fin (sqrt a))"
| "jsqrt PInf = PInf"
| "jsqrt NInf = NaN"
| "jsqrt NaN = NaN"

text \<open>\<open>Math.floor\<close>\<close>
fun jfloor :: "jsnum \<Rightarrow> jsnum" where
  "jfloor (Fin a) = Fin (of_int \<lfloor>a\<rfloor>)"
| "jfloor x = x"

text \<open>\<open>Math.abs\<close>\<close>
fun jabs :: "jsnum \<Rightarrow> jsnum" where
  "jabs (Fin a) = Fin \<bar>a\<bar>"
| "jabs NaN = NaN"
| "jabs _ = PInf"

text \<open>\<open>a < b\<close>: every comparison with NaN is false.\<close>
fun jlt :: "jsnum \<Rightarrow> jsnum \<Rightarrow> bool" where
  "jlt (Fin a) (Fin b) = (a < b)"
| "jlt NaN _ = False"
| "jlt _ NaN = False"
| "jlt NInf NInf = False"
| "jlt NInf _ = True"
| "jlt PInf _ = False"
| "jlt _ PInf = True"
| "jlt _ NInf = False"

text \<open>\<open>a > b\<close>\<close>
definition jgt :: "jsnum \<Rightarrow> jsnum \<Rightarrow> bool" where
  "jgt a b = jlt b a"


text \<open>\<open>Math.min(a, b)\<close> and \<open>Math.max(a, b)\<close>: NaN if an argument is NaN.\<close>
definition jmin :: "jsnum \<Rightarrow> jsnum \<Rightarrow> jsnum" where
  "jmin a b = (if isNaN a \<or> isNaN b then NaN else if jlt b a then b else a)"

definition jmax :: "jsnum \<Rightarrow> jsnum \<Rightarrow> jsnum" where
  "jmax a b = (if isNaN a \<or> isNaN b then NaN else if jlt a b then b else a)"

text \<open>\<open>Math.min(...values)\<close> and \<open>Math.max(...values)\<close>; on no argument they are
  \<open>Infinity\<close> and \<open>-Infinity\<close>.\<close>
definition Math_min :: "jsnum list \<Rightarrow> jsnum" where
  "Math_min xs = foldl jmin PInf xs"

definition Math_max :: "jsnum list \<Rightarrow> jsnum" where
  "Math_max xs = foldl jmax NInf xs"

text \<open>\<open>xs.reduce(f, init)\<close>\<close>
definition reduce :: "('b \<Rightarrow> 'a \<Rightarrow> 'b) \<Rightarrow> 'b \<Rightarrow> 'a list \<Rightarrow> 'b" where
  "reduce f init xs = foldl f init xs"

text \<open>
  \<open>xs.sort(cmp)\<close>. The language requires a stable sort; for a comparator that is a
  consistent ordering the result is the one stable arrangement, which insertion from the
  right computes: an element goes in front of the first element it does not compare
  greater than.
\<close>
fun insert_by :: "('a \<Rightarrow> 'a \<Rightarrow> jsnum) \<Rightarrow> 'a \<Rightarrow> 'a list \<Rightarrow> 'a list" where
  "insert_by cmp x [] = [x]"
| "insert_by cmp x (y # ys) =
     (if jgt (cmp x y) (Fin 0) then y # insert_by cmp x ys else x # y # ys)"

definition js_sort :: "('a \<Rightarrow> 'a \<Rightarrow> jsnum) \<Rightarrow> 'a list \<Rightarrow> 'a list" where
  "js_sort cmp xs = foldr (insert_by cmp) xs []"

text \<open>
  \<open>xs[i]\<close> on an array of numbers. A read outside the array gives \<open>undefined\<close>; every
  use of such a read in the modelled code is arithmetic or a comparison, where
  \<open>undefined\<close> behaves as NaN.
\<close>
definition elem :: "jsnum list \<Rightarrow> int \<Rightarrow> jsnum" where
  "elem xs i = (if 0 \<le> i \<and> i < int (length xs) then xs ! nat i else NaN)"

section \<open>Descriptive statistics\<close>

record stats =
  min_v :: jsnum
  max_v :: jsnum
  mean :: jsnum
  median :: jsnum
  std :: jsnum
  q1 :: jsnum
  q3 :: jsnum

text \<open>
  \<open>calculateStatistics\<close> (lines 435-450). \<open>Math.floor(n * 0.25)\<close> and
  \<open>Math.floor(n * 0.75)\<close> are \<open>n div 4\<close> and \<open>3 * n div 4\<close> (both factors are exact
  binary fractions).
\<close>
definition calculateStatistics :: "jsnum list \<Rightarrow> stats" where
  "calculateStatistics values =
     (let sorted = js_sort (\<lambda>a b. jsub a b) values;
          n = int (length sorted);
          mean = jdiv (reduce (\<lambda>a b. jadd a b) (Fin 0) values) (Fin (of_int n));
          variance = jdiv (reduce (\<lambda>acc val. jadd acc (jpow (jsub val mean) 2)) (Fin 0) values)
                          (Fin (of_int n))
      in \<lparr> min_v = elem sorted 0,
           max_v = elem sorted (n - 1),
           mean = mean,
           median = (if n mod 2 = 0
                     then jdiv (jadd (elem sorted (n div 2 - 1)) (elem sorted (n div 2))) (Fin 2)
                     else elem sorted (n div 2)),
           std = jsqrt variance,
           q1 = elem sorted (n div 4),
           q3 = elem sorted (3 * n div 4) \<rparr>)"

section \<open>Values, records and the host\<close>

text \<open>
  A cell holds a dynamically typed scalar. A record (row) is a JavaScript object, modelled
  as the list of its own properties in enumeration order; the keys of one row are distinct.
  Inherited properties and \<open>Date\<close> objects are not modelled.
\<close>

datatype jsval = VUndefined | VNull | VBool bool | VNum jsnum | VStr string

type_synonym row = "(string \<times> jsval) list"

text \<open>\<open>row[colName]\<close>: a missing property reads as \<open>undefined\<close>.\<close>
definition cell :: "row \<Rightarrow> string \<Rightarrow> jsval" where
  "cell row k = (case map_of row k of None \<Rightarrow> VUndefined | Some v \<Rightarrow> v)"

text \<open>\<open>Object.keys(row)\<close>\<close>
definition Object_keys :: "row \<Rightarrow> string list" where
  "Object_keys row = map fst row"

text \<open>
  The functions of the JavaScript runtime that the engine calls on strings are parameters
  of the model: the conversion of a string to a number, the printing of a number, and
  \<open>Date.parse\<close>.
\<close>
record host =
  StringToNumber :: "string \<Rightarrow> jsnum"
  NumberToString :: "jsnum \<Rightarrow> string"
  Date_parse :: "string \<Rightarrow> jsnum"

text \<open>\<open>Number(v)\<close>\<close>
fun Number :: "host \<Rightarrow> jsval \<Rightarrow> jsnum" where
  "Number h VUndefined = NaN"
| "Number h VNull = Fin 0"
| "Number h (VBool b) = (if b then Fin 1 else Fin 0)"
| "Number h (VNum x) = x"
| "Number h (VStr s) = StringToNumber h s"

text \<open>\<open>String(v)\<close>\<close>
fun ToString :: "host \<Rightarrow> jsval \<Rightarrow> string" where
  "ToString h VUndefined = ''undefined''"
| "ToString h VNull = ''null''"
| "ToString h (VBool b) = (if b then ''true'' else ''false'')"
| "ToString h (VNum x) = NumberToString h x"
| "ToString h (VStr s) = s"

text \<open>Truthiness of a value, as in \<open>row[a] && row[b]\<close> and \<open>v || d\<close>.\<close>
fun truthy :: "jsval \<Rightarrow> bool" where
  "truthy VUndefined = False"
| "truthy VNull = False"
| "truthy (VBool b) = b"
| "truthy (VNum x) = (\<not> isNaN x \<and> \<not> is_zero x)"
| "truthy (VStr s) = (s \<noteq> [])"

text \<open>\<open>new Set(values).size\<close>: the elements are primitives, compared by value.\<close>
definition Set_size :: "'a list \<Rightarrow> nat" where
  "Set_size values = length (remdups values)"

section \<open>Type inference\<close>

datatype column_type = Numeric | Categorical | Datetime | Boolean | Text

text \<open>The three filter predicates of \<open>detectColumnType\<close> (lines 417, 421, 425).\<close>
definition booleanValue :: "jsval \<Rightarrow> bool" where
  "booleanValue v = ((case v of VBool _ \<Rightarrow> True | _ \<Rightarrow> False) \<or> v = VStr ''true'' \<or>
     v = VStr ''false'' \<or> v = VNum (Fin 0) \<or> v = VNum (Fin 1))"

definition numericValue :: "host \<Rightarrow> jsval \<Rightarrow> bool" where
  "numericValue h v = (\<not> isNaN (Number h v) \<and> v \<noteq> VStr [] \<and> v \<noteq> VNull)"

definition dateValue :: "host \<Rightarrow> jsval \<Rightarrow> bool" where
  "dateValue h v = (\<not> isNaN (Date_parse h (ToString h v)))"

text \<open>
  \<open>detectColumnType\<close> (lines 413-433). The products \<open>values.length * 0.8\<close> and
  \<open>values.length * 0.5\<close> are taken exactly: the double nearest to 0.8 exceeds 0.8 by a
  relative \<open>2^-54\<close>, so the computed product is the integer \<open>4n/5\<close> when that is an
  integer and lies strictly between the same two integers as \<open>4n/5\<close> otherwise; the
  comparison with an integer count has the same outcome.
\<close>
definition detectColumnType :: "host \<Rightarrow> jsval list \<Rightarrow> column_type" where
  "detectColumnType h values =
     (if length values = 0 then Text
      else let booleanValues = filter booleanValue values in
        if real (length booleanValues) > real (length values) * 0.8 then Boolean
        else let numericValues = filter (numericValue h) values in
          if real (length numericValues) > real (length values) * 0.8 then Numeric
          else let dateValues = filter (dateValue h) values in
            if real (length dateValues) > real (length values) * 0.8 then Datetime
            else let uniqueValues = Set_size values in
              if real uniqueValues \<le> min 50 (real (length values) * 0.5) then Categorical
              else Text)"





text \<open>A host that agrees with the language on the strings used in the examples of this
  theory: the empty string converts to 0, no other string used below is numeric or a date.\<close>
definition sample_host :: host where
  "sample_host = \<lparr> StringToNumber = (\<lambda>s. if s = [] then Fin 0 else NaN),
                    NumberToString = (\<lambda>x. ''?''),
                    Date_parse = (\<lambda>s. NaN) \<rparr>"

section \<open>Duplicate rows\<close>

text \<open>
  \<open>JSON.stringify(row)\<close>. The text is represented by what it prints: the sequence of
  (key, token) pairs in property order. The printed text and this sequence determine each
  other (keys and strings are quoted and escaped, numbers are printed so that they read
  back), so two texts are equal exactly when the sequences are. A property whose value is
  \<open>undefined\<close> is left out; NaN and the infinities print as \<open>null\<close>.
\<close>
datatype json = JNull | JBool bool | JNum real | JStr string

fun json_of :: "jsval \<Rightarrow> json option" where
  "json_of VUndefined = None"
| "json_of VNull = Some JNull"
| "json_of (VBool b) = Some (JBool b)"
| "json_of (VNum (Fin r)) = Some (JNum r)"
| "json_of (VNum _) = Some JNull"
| "json_of (VStr s) = Some (JStr s)"

definition JSON_stringify :: "row \<Rightarrow> (string \<times> json) list" where
  "JSON_stringify row =
     concat (map (\<lambda>(k, v). case json_of v of None \<Rightarrow> [] | Some j \<Rightarrow> [(k, j)]) row)"

text \<open>\<open>findDuplicateRows\<close> (lines 505-519): the loop with its set \<open>seen\<close> and its
  counter \<open>duplicates\<close>.\<close>
fun findDuplicateRows_loop ::
  "row list \<Rightarrow> (string \<times> json) list set \<Rightarrow> nat \<Rightarrow> nat" where
  "findDuplicateRows_loop [] seen duplicates = duplicates"
| "findDuplicateRows_loop (row # rows) seen duplicates =
     (let key = JSON_stringify row
      in if key \<in> seen then findDuplicateRows_loop rows seen (duplicates + 1)
         else findDuplicateRows_loop rows (insert key seen) duplicates)"

definition findDuplicateRows :: "row list \<Rightarrow> nat" where
  "findDuplicateRows data = findDuplicateRows_loop data {} 0"

text \<open>The dataset of scenario D: ten rows, five of them the same.\<close>
definition scenario_D :: "row list" where
  "scenario_D =
     [[(''id'', VNum (Fin 1)), (''city'', VStr ''Oslo'')],
      [(''id'', VNum (Fin 7)), (''city'', VStr ''Rome'')],
      [(''id'', VNum (Fin 2)), (''city'', VStr ''Oslo'')],
      [(''id'', VNum (Fin 7)), (''city'', VStr ''Rome'')],
      [(''id'', VNum (Fin 7)), (''city'', VStr ''Rome'')],
      [(''id'', VNum (Fin 3)), (''city'', VStr ''Bern'')],
      [(''id'', VNum (Fin 7)), (''city'', VStr ''Rome'')],
      [(''id'', VNum (Fin 4)), (''city'', VStr ''Kyiv'')],
      [(''id'', VNum (Fin 7)), (''city'', VStr ''Rome'')],
      [(''id'', VNum (Fin 5)), (''city'', VStr ''Lima'')]]"

section \<open>Column values\<close>

datatype error = TypeError | NoDataToAnalyze

text \<open>The values of one column as every function after profiling reads them
  (lines 469, 551, 834): \<open>this.data.map(row => Number(row[columnName])).filter(v => !isNaN(v))\<close>.\<close>
definition numbersOf :: "host \<Rightarrow> row list \<Rightarrow> string \<Rightarrow> jsnum list" where
  "numbersOf h data columnName =
     filter (\<lambda>v. \<not> isNaN v) (map (\<lambda>row. Number h (cell row columnName)) data)"

text \<open>The values of one column as \<open>profileData\<close> reads them (line 78): the cells that
  are not \<open>null\<close>, \<open>undefined\<close> or the empty string; and the numbers among them
  (line 95).\<close>
definition nonNullValues :: "row list \<Rightarrow> string \<Rightarrow> jsval list" where
  "nonNullValues data colName =
     filter (\<lambda>v. v \<noteq> VNull \<and> v \<noteq> VUndefined \<and> v \<noteq> VStr [])
       (map (\<lambda>row. cell row colName) data)"

definition numericValues :: "host \<Rightarrow> jsval list \<Rightarrow> jsnum list" where
  "numericValues h values = filter (\<lambda>v. \<not> isNaN v) (map (Number h) values)"

section \<open>Histogram\<close>

text \<open>A bin of \<open>createHistogram\<close>. Its label \<open>range\<close> is the text of the two bounds
  printed with one decimal; the bounds stand for it.\<close>
record bin =
  bin_min :: jsnum
  bin_max :: jsnum
  count :: nat

text \<open>\<open>bins[binIndex]\<close>: a number names an element when it is an integer within the
  array; every other number (NaN, a negative, an infinity) reads \<open>undefined\<close>.\<close>
fun array_index :: "nat \<Rightarrow> jsnum \<Rightarrow> nat option" where
  "array_index len (Fin r) =
     (if r = of_int \<lfloor>r\<rfloor> \<and> 0 \<le> r \<and> r < real len then Some (nat \<lfloor>r\<rfloor>) else None)"
| "array_index len _ = None"

text \<open>The loop \<open>values.forEach\<close> (lines 564-567). \<open>bins[binIndex].count++\<close> on
  \<open>undefined\<close> throws a TypeError.\<close>
fun fill_bins :: "jsnum \<Rightarrow> jsnum \<Rightarrow> nat \<Rightarrow> jsnum list \<Rightarrow> bin list \<Rightarrow> error + bin list" where
  "fill_bins mn binWidth binCount [] bins = Inr bins"
| "fill_bins mn binWidth binCount (value # values) bins =
     (let binIndex = jmin (jfloor (jdiv (jsub value mn) binWidth))
                          (jsub (Fin (real binCount)) (Fin 1))
      in case array_index (length bins) binIndex of
           None \<Rightarrow> Inl TypeError
         | Some k \<Rightarrow> fill_bins mn binWidth binCount values
                      (bins[k := (bins ! k)\<lparr>count := count (bins ! k) + 1\<rparr>]))"

text \<open>\<open>createHistogram\<close> (lines 550-570). The result lists, for each bin, its bounds (in
  place of the label) and its count.\<close>
definition createHistogram :: "host \<Rightarrow> row list \<Rightarrow> string \<Rightarrow> error + bin list" where
  "createHistogram h data columnName =
     (let values = numbersOf h data columnName;
          mn = Math_min values;
          mx = Math_max values;
          binCount = min 20 (nat \<lceil>sqrt (real (length values))\<rceil>);
          binWidth = jdiv (jsub mx mn) (Fin (real binCount));
          bins = map (\<lambda>i. \<lparr> bin_min = jadd mn (jmul (Fin (real i)) binWidth),
                             bin_max = jadd mn (jmul (Fin (real (i + 1))) binWidth),
                             count = 0 \<rparr>) [0..<binCount]
      in fill_bins mn binWidth binCount values bins)"

section \<open>Skewness and correlation\<close>

text \<open>\<open>calculateSkewness\<close> (lines 833-841).\<close>
definition calculateSkewness :: "host \<Rightarrow> row list \<Rightarrow> string \<Rightarrow> jsnum" where
  "calculateSkewness h data columnName =
     (let values = numbersOf h data columnName;
          n = Fin (real (length values));
          mean = jdiv (reduce (\<lambda>a b. jadd a b) (Fin 0) values) n;
          std = jsqrt (jdiv (reduce (\<lambda>acc val. jadd acc (jpow (jsub val mean) 2)) (Fin 0) values) n);
          skewness = jdiv (reduce (\<lambda>acc val. jadd acc (jpow (jdiv (jsub val mean) std) 3))
                             (Fin 0) values) n
      in skewness)"

text \<open>\<open>pearsonCorrelation\<close> (lines 489-503). \<open>x.slice(0, n)\<close> is \<open>take n x\<close>; the
  reducer of \<open>sumXY\<close> reads \<open>y[i]\<close> at the index of the element.\<close>
definition pearsonCorrelation :: "jsnum list \<Rightarrow> jsnum list \<Rightarrow> jsnum" where
  "pearsonCorrelation x y =
     (let n = min (length x) (length y)
      in if n = 0 then Fin 0
         else
           let sumX = reduce (\<lambda>a b. jadd a b) (Fin 0) (take n x);
               sumY = reduce (\<lambda>a b. jadd a b) (Fin 0) (take n y);
               sumXY = reduce (\<lambda>acc (xi, i). jadd acc (jmul xi (elem y (int i)))) (Fin 0)
                         (zip (take n x) [0..<n]);
               sumX2 = reduce (\<lambda>acc xi. jadd acc (jmul xi xi)) (Fin 0) (take n x);
               sumY2 = reduce (\<lambda>acc yi. jadd acc (jmul yi yi)) (Fin 0) (take n y);
               numerator = jsub (jmul (Fin (real n)) sumXY) (jmul sumX sumY);
               denominator = jsqrt (jmul (jsub (jmul (Fin (real n)) sumX2) (jmul sumX sumX))
                                         (jsub (jmul (Fin (real n)) sumY2) (jmul sumY sumY)))
           in if denominator = Fin 0 then Fin 0 else jdiv numerator denominator)"

section \<open>The profile\<close>

datatype strength = Weak | Moderate | Strong

record correlation_entry =
  col1 :: string
  col2 :: string
  correlation :: jsnum
  strength :: strength

record DataColumn =
  name :: string
  ctype :: column_type
  uniqueValues :: nat
  nullCount :: nat
  sampleValues :: "jsval list"
  stats :: "stats option"
  distribution :: "(string \<times> nat) list option"

record DataQuality =
  completeness :: jsnum
  duplicateRows :: nat
  outliers :: nat

record DataProfile =
  totalRows :: nat
  totalColumns :: nat
  columns :: "DataColumn list"
  dataQuality :: DataQuality
  correlations :: "correlation_entry list"

text \<open>The engine object: the dataset and the cached profile (\<open>null\<close> until computed).\<close>
record engine =
  data :: "row list"
  profile :: "DataProfile option"

text \<open>The pairs visited by \<open>for (i = 0 ..) for (j = i + 1 ..)\<close>, in the order of the
  loops.\<close>
fun pairs :: "'a list \<Rightarrow> ('a \<times> 'a) list" where
  "pairs [] = []"
| "pairs (x # xs) = map (Pair x) xs @ pairs xs"

text \<open>\<open>calculateCorrelations\<close> (lines 461-487).\<close>
definition calculateCorrelations ::
  "host \<Rightarrow> row list \<Rightarrow> DataColumn list \<Rightarrow> correlation_entry list" where
  "calculateCorrelations h rows numericColumns =
     concat (map (\<lambda>(c1, c2).
       let values1 = numbersOf h rows (name c1);
           values2 = numbersOf h rows (name c2)
       in if length values1 > 1 \<and> length values2 > 1
          then let r = pearsonCorrelation values1 values2;
                   absCorr = jabs r
               in [\<lparr> col1 = name c1, col2 = name c2, correlation = r,
                      strength = (if jgt absCorr (Fin 0.7) then Strong
                                  else if jgt absCorr (Fin 0.3) then Moderate else Weak) \<rparr>]
          else []) (pairs numericColumns))"

text \<open>\<open>calculateDistribution\<close> (lines 452-459): the counts per \<open>String(value)\<close>, in
  the order in which the keys are first seen.\<close>
definition count_key :: "(string \<times> nat) list \<Rightarrow> string \<Rightarrow> (string \<times> nat) list" where
  "count_key d key =
     (case map_of d key of
        None \<Rightarrow> d @ [(key, 1)]
      | Some c \<Rightarrow> map (\<lambda>(k, v). if k = key then (k, v + 1) else (k, v)) d)"

definition calculateDistribution :: "host \<Rightarrow> jsval list \<Rightarrow> (string \<times> nat) list" where
  "calculateDistribution h vs = foldl (\<lambda>d v. count_key d (ToString h v)) [] vs"

text \<open>\<open>detectOutliers\<close> (lines 521-541).\<close>
definition detectOutliers :: "host \<Rightarrow> row list \<Rightarrow> DataColumn list \<Rightarrow> nat" where
  "detectOutliers h rows numericColumns =
     foldl (\<lambda>totalOutliers col.
        case stats col of
          None \<Rightarrow> totalOutliers
        | Some s \<Rightarrow>
            let iqr = jsub (q3 s) (q1 s);
                lowerBound = jsub (q1 s) (jmul (Fin 1.5) iqr);
                upperBound = jadd (q3 s) (jmul (Fin 1.5) iqr)
            in totalOutliers +
               length (filter (\<lambda>row. let v = Number h (cell row (name col))
                                      in \<not> isNaN v \<and> (jlt v lowerBound \<or> jgt v upperBound)) rows))
       0 numericColumns"

text \<open>\<open>calculateCompleteness\<close> (lines 543-547).\<close>
definition calculateCompleteness :: "row list \<Rightarrow> DataColumn list \<Rightarrow> jsnum" where
  "calculateCompleteness rows cols =
     (let totalCells = length rows * length cols;
          nullCells = reduce (\<lambda>sum col. sum + nullCount col) 0 cols
      in jdiv (Fin (real totalCells - real nullCells)) (Fin (real totalCells)))"

text \<open>The body of the loop over the column names in \<open>profileData\<close> (lines 77-107).\<close>
definition profileColumn :: "host \<Rightarrow> row list \<Rightarrow> string \<Rightarrow> DataColumn" where
  "profileColumn h rows colName =
     (let vs = nonNullValues rows colName;
          nulls = length rows - length vs;
          uniq = Set_size vs;
          ty = detectColumnType h vs
      in \<lparr> name = colName, ctype = ty, uniqueValues = uniq, nullCount = nulls,
           sampleValues = take 10 vs,
           stats = (if ty = Numeric
                    then let nums = numericValues h vs
                         in if length nums > 0 then Some (calculateStatistics nums) else None
                    else None),
           distribution = (if ty = Categorical \<and> uniq \<le> 20
                           then Some (calculateDistribution h vs) else None) \<rparr>)"

text \<open>\<open>profileData\<close> (lines 68-131): throws on an empty dataset, otherwise computes the
  profile, stores it in the engine and returns it.\<close>
definition profileData :: "host \<Rightarrow> engine \<Rightarrow> error + (DataProfile \<times> engine)" where
  "profileData h this =
     (if length (data this) = 0 then Inl NoDataToAnalyze
      else
        let cols = Object_keys (data this ! 0);
            profiledColumns = map (profileColumn h (data this)) cols;
            numericColumns = filter (\<lambda>col. ctype col = Numeric) profiledColumns;
            corrs = calculateCorrelations h (data this) numericColumns;
            dups = findDuplicateRows (data this);
            outs = detectOutliers h (data this) numericColumns;
            compl = calculateCompleteness (data this) profiledColumns;
            p = \<lparr> totalRows = length (data this), totalColumns = length cols,
                  columns = profiledColumns,
                  dataQuality = \<lparr> completeness = compl, duplicateRows = dups, outliers = outs \<rparr>,
                  correlations = corrs \<rparr>
        in Inr (p, this\<lparr>profile := Some p\<rparr>))"

text \<open>A dataset with a \<open>null\<close> cell in a numeric column.\<close>
definition null_rows :: "row list" where
  "null_rows =
     [[(''a'', VNum (Fin 1)), (''b'', VNum (Fin 1))],
      [(''a'', VNull), (''b'', VNum (Fin 0))],
      [(''a'', VNum (Fin 3)), (''b'', VNum (Fin 3))]]"

section \<open>Chart recommendations\<close>

datatype chart_type = Bar | Line | Pie | Scatter | Heatmap | Histogram | Box | Area | Treemap

text \<open>
  A recommendation. Of the source's fields, \<open>id\<close>, \<open>type\<close>, \<open>priority\<close> and \<open>columns\<close> are
  modelled, and \<open>data\<close> for histograms (the bins). The chart data of the other kinds and
  the texts (\<open>title\<close>, \<open>description\<close>, \<open>insights\<close>) are not modelled; computing them
  cannot throw and does not affect which recommendations are made.
\<close>
record ChartRecommendation =
  chart_id :: string
  chart_type :: chart_type
  histogram_bins :: "bin list"
  priority :: int
  chart_columns :: "string list"

text \<open>\<open>createTimeSeries\<close> (lines 572-582), as the number of its points: the rows
  with a truthy date cell and a truthy value cell, cut to 100.\<close>
definition createTimeSeries :: "row list \<Rightarrow> string \<Rightarrow> string \<Rightarrow> nat" where
  "createTimeSeries rows dateColumn valueColumn =
     length (take 100 (filter (\<lambda>row. truthy (cell row dateColumn) \<and> truthy (cell row valueColumn))
                         rows))"

text \<open>\<open>createHeatmap\<close> (lines 595-614), as the categories of its groups: the distinct
  \<open>String(row[categoryColumn] || 'Unknown')\<close>.\<close>
definition createHeatmap :: "host \<Rightarrow> row list \<Rightarrow> string \<Rightarrow> string \<Rightarrow> string list" where
  "createHeatmap h rows categoryColumn valueColumn =
     remdups (map (\<lambda>row. let v = cell row categoryColumn
                          in ToString h (if truthy v then v else VStr ''Unknown'')) rows)"

text \<open>Part 1 of \<open>generateChartRecommendations\<close> (lines 146-166): the loop stops at the
  first histogram that throws.\<close>
fun histogram_charts :: "host \<Rightarrow> row list \<Rightarrow> DataColumn list \<Rightarrow> error + ChartRecommendation list" where
  "histogram_charts h rows [] = Inr []"
| "histogram_charts h rows (col # cols) =
     (case stats col of
        None \<Rightarrow> histogram_charts h rows cols
      | Some s \<Rightarrow>
          (case createHistogram h rows (name col) of
             Inl err \<Rightarrow> Inl err
           | Inr histogramData \<Rightarrow>
               (case histogram_charts h rows cols of
                  Inl err \<Rightarrow> Inl err
                | Inr rest \<Rightarrow>
                    Inr (\<lparr> chart_id = ''histogram-'' @ name col, chart_type = Histogram,
                           histogram_bins = histogramData, priority = 7,
                           chart_columns = [name col] \<rparr> # rest))))"

text \<open>Part 2 (lines 168-210): a bar chart per categorical column with a distribution, and
  a pie chart after it when the column has at most 8 distinct values.\<close>
definition categorical_charts :: "DataColumn list \<Rightarrow> ChartRecommendation list" where
  "categorical_charts categoricalCols =
     concat (map (\<lambda>col.
       if distribution col \<noteq> None
       then \<lparr> chart_id = ''bar-'' @ name col, chart_type = Bar, histogram_bins = [],
               priority = 8, chart_columns = [name col] \<rparr> #
            (if uniqueValues col \<le> 8
             then [\<lparr> chart_id = ''pie-'' @ name col, chart_type = Pie, histogram_bins = [],
                      priority = 6, chart_columns = [name col] \<rparr>]
             else [])
       else []) categoricalCols)"

text \<open>Part 3 (lines 212-234).\<close>
definition time_series_charts ::
  "row list \<Rightarrow> DataColumn list \<Rightarrow> DataColumn list \<Rightarrow> ChartRecommendation list" where
  "time_series_charts rows datetimeCols numericCols =
     concat (map (\<lambda>dateCol. concat (map (\<lambda>numCol.
       if createTimeSeries rows (name dateCol) (name numCol) > 1
       then [\<lparr> chart_id = ''line-'' @ name dateCol @ ''-'' @ name numCol, chart_type = Line,
                histogram_bins = [], priority = 9,
                chart_columns = [name dateCol, name numCol] \<rparr>]
       else []) numericCols)) datetimeCols)"

text \<open>Part 4 (lines 236-265).\<close>
definition scatter_charts ::
  "correlation_entry list \<Rightarrow> DataColumn list \<Rightarrow> ChartRecommendation list" where
  "scatter_charts corrs numericCols =
     concat (map (\<lambda>(c1, c2).
       case find (\<lambda>corr. (col1 corr = name c1 \<and> col2 corr = name c2) \<or>
                          (col1 corr = name c2 \<and> col2 corr = name c1)) corrs of
         None \<Rightarrow> []
       | Some corr \<Rightarrow>
           if jgt (jabs (correlation corr)) (Fin 0.3)
           then [\<lparr> chart_id = ''scatter-'' @ name c1 @ ''-'' @ name c2, chart_type = Scatter,
                    histogram_bins = [],
                    priority = (if strength corr = Strong then 8 else 6),
                    chart_columns = [name c1, name c2] \<rparr>]
           else []) (pairs numericCols))"

text \<open>Part 5 (lines 267-288).\<close>
definition heatmap_charts ::
  "host \<Rightarrow> row list \<Rightarrow> DataColumn list \<Rightarrow> DataColumn list \<Rightarrow> ChartRecommendation list" where
  "heatmap_charts h rows categoricalCols numericCols =
     concat (map (\<lambda>catCol. concat (map (\<lambda>numCol.
       if length (createHeatmap h rows (name catCol) (name numCol)) > 0
       then [\<lparr> chart_id = ''heatmap-'' @ name catCol @ ''-'' @ name numCol, chart_type = Heatmap,
                histogram_bins = [], priority = 5,
                chart_columns = [name catCol, name numCol] \<rparr>]
       else []) (take 2 numericCols))) (take 2 categoricalCols))"

text \<open>Part 6 (lines 290-311).\<close>
definition box_charts :: "DataColumn list \<Rightarrow> DataColumn list \<Rightarrow> ChartRecommendation list" where
  "box_charts categoricalCols numericCols =
     concat (map (\<lambda>catCol. concat (map (\<lambda>numCol.
       if uniqueValues catCol \<le> 10
       then [\<lparr> chart_id = ''box-'' @ name catCol @ ''-'' @ name numCol, chart_type = Box,
                histogram_bins = [], priority = 6,
                chart_columns = [name catCol, name numCol] \<rparr>]
       else []) (take 2 numericCols))) (take 2 categoricalCols))"

text \<open>The array \<open>recommendations\<close> before it is sorted (lines 139-311).\<close>
definition chart_candidates :: "host \<Rightarrow> row list \<Rightarrow> DataProfile \<Rightarrow> error + ChartRecommendation list" where
  "chart_candidates h rows p =
     (let numericCols = filter (\<lambda>col. ctype col = Numeric) (columns p);
          categoricalCols = filter (\<lambda>col. ctype col = Categorical \<and> uniqueValues col \<le> 20)
                              (columns p);
          datetimeCols = filter (\<lambda>col. ctype col = Datetime) (columns p)
      in case histogram_charts h rows numericCols of
           Inl err \<Rightarrow> Inl err
         | Inr histograms \<Rightarrow>
             Inr (histograms @ categorical_charts categoricalCols @
                  time_series_charts rows datetimeCols numericCols @
                  scatter_charts (correlations p) numericCols @
                  heatmap_charts h rows categoricalCols numericCols @
                  box_charts categoricalCols numericCols))"

text \<open>\<open>if (!this.profile) await this.profileData()\<close>\<close>
definition ensure_profile :: "host \<Rightarrow> engine \<Rightarrow> error + (DataProfile \<times> engine)" where
  "ensure_profile h this =
     (case profile this of Some p \<Rightarrow> Inr (p, this) | None \<Rightarrow> profileData h this)"

text \<open>\<open>generateChartRecommendations\<close> (lines 134-317).\<close>
definition generateChartRecommendations ::
  "host \<Rightarrow> engine \<Rightarrow> error + (ChartRecommendation list \<times> engine)" where
  "generateChartRecommendations h this =
     (case ensure_profile h this of
        Inl err \<Rightarrow> Inl err
      | Inr (p, this') \<Rightarrow>
          (case chart_candidates h (data this') p of
             Inl err \<Rightarrow> Inl err
           | Inr recommendations \<Rightarrow>
               Inr (take 8 (js_sort (\<lambda>a b. Fin (real_of_int (priority b - priority a)))
                              recommendations), this')))"

text \<open>The position of a chart kind in the order in which the candidates are generated.\<close>
fun generation_rank :: "chart_type \<Rightarrow> nat" where
  "generation_rank Histogram = 0"
| "generation_rank Bar = 1"
| "generation_rank Pie = 2"
| "generation_rank Line = 3"
| "generation_rank Scatter = 4"
| "generation_rank Heatmap = 5"
| "generation_rank Box = 6"
| "generation_rank _ = 7"

text \<open>A dataset with two categorical columns.\<close>
definition category_rows :: "row list" where
  "category_rows =
     [[(''c'', VStr ''x''), (''d'', VStr ''u'')],
      [(''c'', VStr ''x''), (''d'', VStr ''v'')],
      [(''c'', VStr ''y''), (''d'', VStr ''u'')],
      [(''c'', VStr ''y''), (''d'', VStr ''v'')]]"

text \<open>A record without the fields that are not among the given names.\<close>
definition only_fields :: "string list \<Rightarrow> row \<Rightarrow> row" where
  "only_fields ks r = filter (\<lambda>(k, v). k \<in> set ks) r"

text \<open>A dataset whose second record has a field that the first record lacks.\<close>
definition extra_field_rows :: "row list" where
  "extra_field_rows =
     [[(''c'', VStr ''x'')],
      [(''c'', VStr ''y''), (''z'', VNum (Fin 5))]]"

section \<open>Properties of the statistics\<close>








section \<open>Properties of type inference\<close>





section \<open>Properties of the duplicate count\<close>

lemma findDuplicateRows_loop_count:
  "findDuplicateRows_loop rows seen d =
     d + length (filter (\<lambda>i. JSON_stringify (rows ! i) \<in> seen \<or>
                          (\<exists>j<i. JSON_stringify (rows ! j) = JSON_stringify (rows ! i)))
                  [0..<length rows])"
proof (induction rows arbitrary: seen d)
  case Nil
  then show ?case by simp
next
  case (Cons r rows)
  let ?k = "JSON_stringify"
  have shift: "[0..<length (r # rows)] = 0 # map Suc [0..<length rows]"
    by (simp add: upt_conv_Cons map_Suc_upt del: upt_Suc)
  define Q where "Q = (\<lambda>i. ?k ((r # rows) ! i) \<in> seen \<or>
                          (\<exists>j<i. ?k ((r # rows) ! j) = ?k ((r # rows) ! i)))"
  define Q' where "Q' = (\<lambda>i. ?k (rows ! i) \<in> insert (?k r) seen \<or>
                          (\<exists>j<i. ?k (rows ! j) = ?k (rows ! i)))"
  have QS: "Q \<circ> Suc = Q'"
    by (auto simp: Q_def Q'_def fun_eq_iff Ex_less_Suc2)
  have Q0: "Q 0 = (?k r \<in> seen)"
    by (simp add: Q_def)
  have "length (filter Q [0..<length (r # rows)]) =
        (if Q 0 then 1 else 0) + length (filter (Q \<circ> Suc) [0..<length rows])"
    unfolding shift by (simp add: filter_map del: upt_Suc)
  then have split: "length (filter Q [0..<length (r # rows)]) =
        (if ?k r \<in> seen then 1 else 0) + length (filter Q' [0..<length rows])"
    by (simp only: QS Q0)
  have "findDuplicateRows_loop (r # rows) seen d =
        d + length (filter Q [0..<length (r # rows)])"
  proof (cases "?k r \<in> seen")
    case True
    have "Q' = (\<lambda>i. ?k (rows ! i) \<in> seen \<or> (\<exists>j<i. ?k (rows ! j) = ?k (rows ! i)))"
      by (simp add: Q'_def insert_absorb[OF True])
    then have "findDuplicateRows_loop rows seen (d + 1) =
               d + 1 + length (filter Q' [0..<length rows])"
      using Cons.IH[of seen "d + 1"] by simp
    then show ?thesis
      using True split by (simp add: Let_def del: upt_Suc)
  next
    case False
    have "findDuplicateRows_loop rows (insert (?k r) seen) d =
          d + length (filter Q' [0..<length rows])"
      using Cons.IH[of "insert (?k r) seen" d] by (simp add: Q'_def)
    then show ?thesis
      using False split by (simp add: Let_def del: upt_Suc)
  qed
  then show ?case by (simp add: Q_def)
qed

text \<open>
  C5 (amended). \<open>duplicateRows\<close> is the number of records whose JSON text equals the
  text of an earlier record: the first record with a given text is not counted, every
  later one is. The text lists the properties in the record's own order. The dataset of
  scenario D, five equal rows among ten, gives 4.
\<close>
theorem findDuplicateRows_counts_repeats:
  "findDuplicateRows rows =
     length (filter (\<lambda>i. \<exists>j<i. JSON_stringify (rows ! j) = JSON_stringify (rows ! i))
               [0..<length rows]) \<and>
   findDuplicateRows scenario_D = 4"
proof
  show "findDuplicateRows rows =
     length (filter (\<lambda>i. \<exists>j<i. JSON_stringify (rows ! j) = JSON_stringify (rows ! i))
               [0..<length rows])"
    by (simp add: findDuplicateRows_def findDuplicateRows_loop_count)
  show "findDuplicateRows scenario_D = 4"
    by (simp add: findDuplicateRows_def scenario_D_def JSON_stringify_def)
qed

text \<open>Two records with the same field-value mapping, written in a different property
  order, are not counted as duplicates.\<close>
theorem findDuplicateRows_order_counterexample:
  "map_of [(''a'', VNum (Fin 1)), (''b'', VNum (Fin 2))] =
   map_of [(''b'', VNum (Fin 2)), (''a'', VNum (Fin 1))] \<and>
   findDuplicateRows [[(''a'', VNum (Fin 1)), (''b'', VNum (Fin 2))],
                      [(''b'', VNum (Fin 2)), (''a'', VNum (Fin 1))]] = 0"
  by (auto simp: findDuplicateRows_def JSON_stringify_def fun_eq_iff)

section \<open>Properties of the histogram\<close>

lemma foldl_jmin_replicate: "foldl jmin (Fin x) (replicate k (Fin x)) = Fin x"
  by (induction k) (simp_all add: jmin_def)

lemma foldl_jmax_replicate: "foldl jmax (Fin x) (replicate k (Fin x)) = Fin x"
  by (induction k) (simp_all add: jmax_def)

lemma fill_bins_zero_width:
  "fill_bins (Fin x) (jdiv (jsub (Fin x) (Fin x)) (Fin b)) c (Fin x # vs) bins = Inl TypeError"
  by (simp add: jsub_def jmin_def)

text \<open>
  C1. A numeric column whose values are all equal has bin width 0; the bin index of the
  first value is \<open>min(floor(0 / 0), binCount - 1) = NaN\<close>, \<open>bins[NaN]\<close> is \<open>undefined\<close>, and
  \<open>createHistogram\<close> throws a TypeError instead of assigning the value to a bin.
\<close>
theorem createHistogram_constant_column:
  assumes "numbersOf h rows columnName = replicate (Suc k) (Fin x)"
  shows "createHistogram h rows columnName = Inl TypeError"
proof -
  have mn: "Math_min (replicate (Suc k) (Fin x)) = Fin x"
    by (simp add: Math_min_def jmin_def foldl_jmin_replicate)
  have mx: "Math_max (replicate (Suc k) (Fin x)) = Fin x"
    by (simp add: Math_max_def jmax_def foldl_jmax_replicate)
  have vs: "replicate (Suc k) (Fin x) = Fin x # replicate k (Fin x)"
    by simp
  show ?thesis
    unfolding createHistogram_def Let_def assms mn mx
    unfolding vs by (rule fill_bins_zero_width)
qed

theorem createHistogram_constant_column_witness:
  "numbersOf sample_host [[(''a'', VNum (Fin 7))], [(''a'', VNum (Fin 7))]] ''a'' =
     replicate (Suc 1) (Fin 7) \<and>
   createHistogram sample_host [[(''a'', VNum (Fin 7))], [(''a'', VNum (Fin 7))]] ''a'' =
     Inl TypeError"
proof -
  have v: "numbersOf sample_host [[(''a'', VNum (Fin 7))], [(''a'', VNum (Fin 7))]] ''a'' =
           replicate (Suc 1) (Fin 7)"
    by (simp add: numbersOf_def cell_def)
  from v createHistogram_constant_column [OF v] show ?thesis by (rule conjI)
qed

lemma fill_bins_total:
  "fill_bins mn w c vs bins = Inr bins' \<Longrightarrow>
   sum_list (map count bins') = sum_list (map count bins) + length vs \<and>
   length bins' = length bins"
proof (induction vs arbitrary: bins)
  case Nil
  then show ?case by simp
next
  case (Cons v vs)
  let ?ix = "jmin (jfloor (jdiv (jsub v mn) w)) (jsub (Fin (real c)) (Fin 1))"
  from Cons.prems obtain k where k: "array_index (length bins) ?ix = Some k"
    by (auto simp: Let_def split: option.splits)
  then have kb: "k < length bins"
    by (cases ?ix) (auto split: if_splits)
  let ?bins = "bins[k := (bins ! k)\<lparr>count := count (bins ! k) + 1\<rparr>]"
  from Cons.prems k have "fill_bins mn w c vs ?bins = Inr bins'"
    by (simp add: Let_def)
  from Cons.IH[OF this]
  have *: "sum_list (map count bins') = sum_list (map count ?bins) + length vs"
    and len: "length bins' = length bins" by simp_all
  have "map count ?bins = (map count bins)[k := count (bins ! k) + 1]"
    by (simp add: map_update)
  then have "sum_list (map count ?bins) = sum_list (map count bins) + 1"
    using kb by (simp add: sum_list_update)
  with * len show ?case by simp
qed

text \<open>Whenever \<open>createHistogram\<close> returns, the counts of its bins add up to the number of
  values it read: the rows whose cell converts to a number other than NaN.\<close>
lemma createHistogram_counts:
  assumes "createHistogram h rows columnName = Inr bins"
  shows "sum_list (map count bins) = length (numbersOf h rows columnName)"
proof -
  have z: "sum_list (map count (map (\<lambda>i. \<lparr>bin_min = f i, bin_max = g i, count = 0\<rparr>) js)) = 0"
    for f g and js :: "nat list"
    by (induction js) simp_all
  from assms show ?thesis
    unfolding createHistogram_def Let_def
    by (auto dest!: fill_bins_total simp: z simp del: upt_Suc)
qed

text \<open>
  C6. A \<open>null\<close> cell is not among the column's non-null numeric values, but
  \<open>createHistogram\<close> converts it to 0 and counts it: with the cells 1, null, 2, 4 the
  column has 3 numeric values and the bin counts add up to 4.
\<close>
theorem createHistogram_counts_null_cell:
  "length (numericValues sample_host (nonNullValues
      [[(''a'', VNum (Fin 1))], [(''a'', VNull)], [(''a'', VNum (Fin 2))], [(''a'', VNum (Fin 4))]]
      ''a'')) = 3 \<and>
   createHistogram sample_host
      [[(''a'', VNum (Fin 1))], [(''a'', VNull)], [(''a'', VNum (Fin 2))], [(''a'', VNum (Fin 4))]]
      ''a'' =
     Inr [\<lparr>bin_min = Fin 0, bin_max = Fin 2, count = 2\<rparr>,
          \<lparr>bin_min = Fin 2, bin_max = Fin 4, count = 2\<rparr>]"
  by (simp add: createHistogram_def numbersOf_def numericValues_def nonNullValues_def cell_def
      Math_min_def Math_max_def jmin_def jmax_def jsub_def Let_def upt_rec[of 0] upt_rec[of 1]
      numeral_2_eq_2)

section \<open>Properties of skewness and correlation\<close>

lemma sum_replicate: "foldl (\<lambda>a b. jadd a b) (Fin a) (replicate k (Fin x)) = Fin (a + real k * x)"
  by (induction k arbitrary: a) (simp_all add: algebra_simps)

lemma squares_replicate:
  "foldl (\<lambda>acc val. jadd acc (jpow (jsub val (Fin x)) 2)) (Fin 0) (replicate k (Fin x)) = Fin 0"
  by (induction k) (simp_all add: jsub_def numeral_2_eq_2)

lemma cubes_replicate:
  "foldl (\<lambda>acc val. jadd acc (jpow (jdiv (jsub val (Fin x)) (Fin 0)) 3)) a
     (replicate (Suc k) (Fin x)) = NaN"
proof -
  define f where "f = (\<lambda>acc val. jadd acc (jpow (jdiv (jsub val (Fin x)) (Fin 0)) 3))"
  have step: "f b (Fin x) = NaN" for b
    by (cases b) (simp_all add: f_def jsub_def numeral_3_eq_3)
  have nan: "foldl f NaN (replicate j (Fin x)) = NaN" for j
    by (induction j) (simp_all add: step)
  have "foldl f a (replicate (Suc k) (Fin x)) = NaN"
    by (simp add: step nan)
  then show ?thesis by (simp only: f_def)
qed

text \<open>
  C2. For a column whose values are all equal the standard deviation is 0, every term
  \<open>((x - mean) / std)^3\<close> is \<open>0 / 0\<close>, and \<open>calculateSkewness\<close> returns NaN, not 0.
\<close>
theorem calculateSkewness_constant_column:
  assumes "numbersOf h rows columnName = replicate (Suc k) (Fin x)"
  shows "calculateSkewness h rows columnName = NaN"
proof -
  let ?vs = "replicate (Suc k) (Fin x)"
  let ?n = "Fin (real (length ?vs))"
  have mean: "jdiv (reduce (\<lambda>a b. jadd a b) (Fin 0) ?vs) ?n = Fin x"
    unfolding reduce_def sum_replicate by simp
  have std: "jsqrt (jdiv (reduce (\<lambda>acc val. jadd acc (jpow (jsub val (Fin x)) 2)) (Fin 0) ?vs) ?n)
             = Fin 0"
    unfolding reduce_def squares_replicate by simp
  have skew: "jdiv (reduce (\<lambda>acc val. jadd acc (jpow (jdiv (jsub val (Fin x)) (Fin 0)) 3))
                      (Fin 0) ?vs) ?n = NaN"
    unfolding reduce_def cubes_replicate by simp
  show ?thesis
    unfolding calculateSkewness_def Let_def assms mean std skew ..
qed

theorem calculateSkewness_constant_column_witness:
  "numbersOf sample_host [[(''a'', VNum (Fin 7))], [(''a'', VNum (Fin 7))]] ''a'' =
     replicate (Suc 1) (Fin 7) \<and>
   calculateSkewness sample_host [[(''a'', VNum (Fin 7))], [(''a'', VNum (Fin 7))]] ''a'' = NaN"
proof -
  have v: "numbersOf sample_host [[(''a'', VNum (Fin 7))], [(''a'', VNum (Fin 7))]] ''a'' =
           replicate (Suc 1) (Fin 7)"
    by (simp add: numbersOf_def cell_def)
  from v calculateSkewness_constant_column [OF v] show ?thesis by (rule conjI)
qed

section \<open>Properties of the profile\<close>

lemma profileData_result:
  assumes "profileData h this = Inr (p, e)"
  shows "columns p = map (profileColumn h (data this)) (Object_keys (data this ! 0))"
    and "totalColumns p = length (Object_keys (data this ! 0))"
    and "totalRows p = length (data this)"
    and "correlations p = calculateCorrelations h (data this)
           (filter (\<lambda>col. ctype col = Numeric) (columns p))"
    and "completeness (dataQuality p) = calculateCompleteness (data this) (columns p)"
    and "outliers (dataQuality p) = detectOutliers h (data this)
           (filter (\<lambda>col. ctype col = Numeric) (columns p))"
    and "duplicateRows (dataQuality p) = findDuplicateRows (data this)"
    and "e = this\<lparr>profile := Some p\<rparr>"
    and "data this \<noteq> []"
  using assms by (auto simp: profileData_def Let_def split: if_splits)

lemma profileData_returns:
  "data this \<noteq> [] \<Longrightarrow> \<exists>p. profileData h this = Inr (p, this\<lparr>profile := Some p\<rparr>)"
  by (simp add: profileData_def Let_def)

lemma name_profileColumn: "name (profileColumn h rows c) = c"
  by (simp add: profileColumn_def Let_def)

lemma ctype_profileColumn:
  "ctype (profileColumn h rows c) = detectColumnType h (nonNullValues rows c)"
  by (simp add: profileColumn_def Let_def)

lemma sqrt_196: "sqrt 196 = 14"
  by (rule real_sqrt_unique) simp_all

text \<open>
  C4. With the cells 1, null, 3 in column a and 1, 0, 3 in column b, both columns are
  numeric. Filtered of nulls, column a is 1, 3 and its positional pairing with b has
  correlation -1. The profile reports +1: \<open>calculateCorrelations\<close> converts the null cell
  to 0 and keeps it.
\<close>
theorem calculateCorrelations_null_cell:
  "\<exists>p e. profileData sample_host \<lparr>data = null_rows, profile = None\<rparr> = Inr (p, e) \<and>
     map ctype (columns p) = [Numeric, Numeric] \<and>
     correlations p = [\<lparr>col1 = ''a'', col2 = ''b'', correlation = Fin 1, strength = Strong\<rparr>] \<and>
     pearsonCorrelation (numericValues sample_host (nonNullValues null_rows ''a''))
                        (numericValues sample_host (nonNullValues null_rows ''b'')) = Fin (- 1)"
proof -
  let ?eng = "\<lparr>data = null_rows, profile = None\<rparr>"
  have "data ?eng \<noteq> []" by (simp add: null_rows_def)
  from profileData_returns[OF this, of sample_host]
  obtain p where p: "profileData sample_host ?eng = Inr (p, ?eng\<lparr>profile := Some p\<rparr>)" ..
  have keys: "Object_keys (data ?eng ! 0) = [''a'', ''b'']"
    by (simp add: null_rows_def Object_keys_def)
  have va: "nonNullValues null_rows ''a'' = [VNum (Fin 1), VNum (Fin 3)]"
    by (simp add: null_rows_def nonNullValues_def cell_def)
  have vb: "nonNullValues null_rows ''b'' = [VNum (Fin 1), VNum (Fin 0), VNum (Fin 3)]"
    by (simp add: null_rows_def nonNullValues_def cell_def)
  have ta: "detectColumnType sample_host [VNum (Fin 1), VNum (Fin 3)] = Numeric"
    by (simp add: detectColumnType_def booleanValue_def numericValue_def)
  have tb: "detectColumnType sample_host [VNum (Fin 1), VNum (Fin 0), VNum (Fin 3)] = Numeric"
    by (simp add: detectColumnType_def booleanValue_def numericValue_def)
  have na: "numbersOf sample_host null_rows ''a'' = [Fin 1, Fin 0, Fin 3]"
    by (simp add: null_rows_def numbersOf_def cell_def)
  have nb: "numbersOf sample_host null_rows ''b'' = [Fin 1, Fin 0, Fin 3]"
    by (simp add: null_rows_def numbersOf_def cell_def)
  have p1: "pearsonCorrelation [Fin 1, Fin 0, Fin 3] [Fin 1, Fin 0, Fin 3] = Fin 1"
    by (simp add: pearsonCorrelation_def reduce_def elem_def jsub_def Let_def
        upt_rec[of 0] upt_rec[of 1] upt_rec[of 2] numeral_3_eq_3 sqrt_196)
  have p2: "pearsonCorrelation [Fin 1, Fin 3] [Fin 1, Fin 0, Fin 3] = Fin (- 1)"
    by (simp add: pearsonCorrelation_def reduce_def elem_def jsub_def Let_def
        upt_rec[of 0] upt_rec[of 1] numeral_2_eq_2)
  have cols: "columns p = [profileColumn sample_host null_rows ''a'',
                           profileColumn sample_host null_rows ''b'']"
    using profileData_result(1)[OF p] keys by simp
  have types: "map ctype (columns p) = [Numeric, Numeric]"
    by (simp add: cols ctype_profileColumn va vb ta tb)
  have "correlations p = calculateCorrelations sample_host null_rows (columns p)"
    using profileData_result(4)[OF p] types by (simp add: cols)
  then have corr: "correlations p =
      [\<lparr>col1 = ''a'', col2 = ''b'', correlation = Fin 1, strength = Strong\<rparr>]"
    by (simp add: cols calculateCorrelations_def name_profileColumn na nb p1 jgt_def)
  have claimed: "pearsonCorrelation (numericValues sample_host (nonNullValues null_rows ''a''))
                   (numericValues sample_host (nonNullValues null_rows ''b'')) = Fin (- 1)"
    by (simp add: va vb numericValues_def p2)
  show ?thesis
  proof (intro exI conjI)
    show "profileData sample_host ?eng = Inr (p, ?eng\<lparr>profile := Some p\<rparr>)"
      by (rule p)
  qed (rule types corr claimed)+
qed

section \<open>Properties of the chart recommendations\<close>

lemma insert_by_priority:
  "insert_by (\<lambda>a b. Fin (real_of_int (priority b - priority a))) x ys =
   insort_key (\<lambda>r. - priority r) x ys"
  by (induction ys) (auto simp: jgt_def)

lemma js_sort_priority:
  "js_sort (\<lambda>a b. Fin (real_of_int (priority b - priority a))) xs =
   sort_key (\<lambda>r. - priority r) xs"
  unfolding js_sort_def sort_key_def
  by (induction xs) (simp_all only: foldr.simps comp_apply id_apply insert_by_priority)

lemma insort_key_ties:
  fixes f :: "'a \<Rightarrow> int"
  assumes "sorted_wrt (\<lambda>a b. f a = f b \<longrightarrow> Q a b) ys"
    and "\<forall>y\<in>set ys. f x = f y \<longrightarrow> Q x y"
  shows "sorted_wrt (\<lambda>a b. f a = f b \<longrightarrow> Q a b) (insort_key f x ys)"
  using assms by (induction ys) (auto simp: set_insort_key)

lemma sort_key_ties:
  fixes f :: "'a \<Rightarrow> int"
  assumes "sorted_wrt (\<lambda>a b. f a = f b \<longrightarrow> Q a b) xs"
  shows "sorted_wrt (\<lambda>a b. f a = f b \<longrightarrow> Q a b) (sort_key f xs)"
  using assms
proof (induction xs)
  case Nil
  then show ?case by simp
next
  case (Cons x xs)
  then have "sorted_wrt (\<lambda>a b. f a = f b \<longrightarrow> Q a b) (sort_key f xs)"
    and "\<forall>y\<in>set (sort_key f xs). f x = f y \<longrightarrow> Q x y"
    by auto
  then have "sorted_wrt (\<lambda>a b. f a = f b \<longrightarrow> Q a b) (insort_key f x (sort_key f xs))"
    by (rule insort_key_ties)
  then show ?case by (simp add: sort_key_def)
qed

lemma sorted_wrt_take_any: "sorted_wrt P xs \<Longrightarrow> sorted_wrt P (take n xs)"
  by (induction xs arbitrary: n) (auto simp: take_Cons' dest: in_set_takeD)

lemma filter_take_prefix: "\<exists>m. filter P (take n xs) = take m (filter P xs)"
proof (induction xs arbitrary: n)
  case Nil
  then show ?case by simp
next
  case (Cons x xs)
  show ?case
  proof (cases n)
    case 0
    then show ?thesis by (intro exI[of _ 0]) simp
  next
    case (Suc n')
    from Cons[of n'] obtain m where m: "filter P (take n' xs) = take m (filter P xs)" ..
    show ?thesis
    proof (cases "P x")
      case True
      with m Suc show ?thesis by (intro exI[of _ "Suc m"]) simp
    next
      case False
      with m Suc show ?thesis by (intro exI[of _ m]) simp
    qed
  qed
qed

lemma histogram_charts_kind:
  "histogram_charts h rows cols = Inr rs \<Longrightarrow> \<forall>r\<in>set rs. chart_type r = Histogram"
  by (induction cols arbitrary: rs) (auto split: option.splits sum.splits)

lemma categorical_charts_kind:
  "r \<in> set (categorical_charts cols) \<Longrightarrow>
   (chart_type r = Bar \<and> priority r = 8) \<or> (chart_type r = Pie \<and> priority r = 6)"
  by (auto simp: categorical_charts_def split: if_splits)

lemma time_series_charts_kind: "r \<in> set (time_series_charts rows ds ns) \<Longrightarrow> chart_type r = Line"
  by (auto simp: time_series_charts_def split: if_splits)

lemma scatter_charts_kind: "r \<in> set (scatter_charts corrs ns) \<Longrightarrow> chart_type r = Scatter"
  by (auto simp: scatter_charts_def split: if_splits option.splits)

lemma heatmap_charts_kind: "r \<in> set (heatmap_charts h rows cs ns) \<Longrightarrow> chart_type r = Heatmap"
  by (auto simp: heatmap_charts_def split: if_splits)

lemma box_charts_kind: "r \<in> set (box_charts cs ns) \<Longrightarrow> chart_type r = Box"
  by (auto simp: box_charts_def split: if_splits)

lemma sorted_wrt_all: "(\<And>x y. x \<in> set xs \<Longrightarrow> y \<in> set xs \<Longrightarrow> P x y) \<Longrightarrow> sorted_wrt P xs"
  by (induction xs) auto

lemma sorted_wrt_append_ranked:
  fixes g :: "'a \<Rightarrow> nat"
  assumes "sorted_wrt (\<lambda>a b. f a = f b \<longrightarrow> g a \<le> g b) xs"
    and "sorted_wrt (\<lambda>a b. f a = f b \<longrightarrow> g a \<le> g b) ys"
    and "\<And>x. x \<in> set xs \<Longrightarrow> g x \<le> k"
    and "\<And>y. y \<in> set ys \<Longrightarrow> k \<le> g y"
  shows "sorted_wrt (\<lambda>a b. f a = f b \<longrightarrow> g a \<le> g b) (xs @ ys)"
  unfolding sorted_wrt_append using assms by (meson le_trans)

lemma chart_candidates_order:
  assumes "chart_candidates h rows p = Inr cands"
  shows "sorted_wrt (\<lambda>a b. priority a = priority b \<longrightarrow>
            generation_rank (chart_type a) \<le> generation_rank (chart_type b)) cands"
proof -
  let ?g = "\<lambda>r. generation_rank (chart_type r)"
  let ?P = "\<lambda>a b. priority a = priority b \<longrightarrow> ?g a \<le> ?g b"
  let ?ns = "filter (\<lambda>col. ctype col = Numeric) (columns p)"
  let ?cs = "filter (\<lambda>col. ctype col = Categorical \<and> uniqueValues col \<le> 20) (columns p)"
  let ?ds = "filter (\<lambda>col. ctype col = Datetime) (columns p)"
  let ?B = "box_charts ?cs ?ns"
  let ?M = "heatmap_charts h rows ?cs ?ns"
  let ?S = "scatter_charts (correlations p) ?ns"
  let ?L = "time_series_charts rows ?ds ?ns"
  let ?C = "categorical_charts ?cs"
  from assms obtain hs where hs: "histogram_charts h rows ?ns = Inr hs"
    and cands: "cands = hs @ ?C @ ?L @ ?S @ ?M @ ?B"
    by (auto simp: chart_candidates_def Let_def split: sum.splits)
  have H: "\<And>r. r \<in> set hs \<Longrightarrow> ?g r = 0"
    using histogram_charts_kind[OF hs] by simp
  have C: "\<And>r. r \<in> set ?C \<Longrightarrow> (?g r = 1 \<and> priority r = 8) \<or> (?g r = 2 \<and> priority r = 6)"
    using categorical_charts_kind by fastforce
  have L: "\<And>r. r \<in> set ?L \<Longrightarrow> ?g r = 3"
    by (simp add: time_series_charts_kind)
  have S: "\<And>r. r \<in> set ?S \<Longrightarrow> ?g r = 4"
    by (simp add: scatter_charts_kind)
  have M: "\<And>r. r \<in> set ?M \<Longrightarrow> ?g r = 5"
    by (simp add: heatmap_charts_kind)
  have B: "\<And>r. r \<in> set ?B \<Longrightarrow> ?g r = 6"
    by (simp add: box_charts_kind)
  have s1: "sorted_wrt ?P hs" by (rule sorted_wrt_all) (simp add: H)
  have s2: "sorted_wrt ?P ?C"
  proof (rule sorted_wrt_all)
    fix x y
    assume "x \<in> set ?C" and "y \<in> set ?C"
    from C[OF this(1)] C[OF this(2)] show "?P x y" by auto
  qed
  have s3: "sorted_wrt ?P ?L" by (rule sorted_wrt_all) (simp add: L)
  have s4: "sorted_wrt ?P ?S" by (rule sorted_wrt_all) (simp add: S)
  have s5: "sorted_wrt ?P ?M" by (rule sorted_wrt_all) (simp add: M)
  have s6: "sorted_wrt ?P ?B" by (rule sorted_wrt_all) (simp add: B)
  have t5: "sorted_wrt ?P (?M @ ?B)"
    by (rule sorted_wrt_append_ranked[where k = 5, OF s5 s6]) (simp_all add: M B)
  have r5: "\<And>r. r \<in> set (?M @ ?B) \<Longrightarrow> 5 \<le> ?g r"
    using M B by fastforce
  have t4: "sorted_wrt ?P (?S @ ?M @ ?B)"
    by (rule sorted_wrt_append_ranked[where k = 4, OF s4 t5]) (use S r5 in fastforce)+
  have r4: "\<And>r. r \<in> set (?S @ ?M @ ?B) \<Longrightarrow> 4 \<le> ?g r"
    using S r5 by fastforce
  have t3: "sorted_wrt ?P (?L @ ?S @ ?M @ ?B)"
    by (rule sorted_wrt_append_ranked[where k = 3, OF s3 t4]) (use L r4 in fastforce)+
  have r3: "\<And>r. r \<in> set (?L @ ?S @ ?M @ ?B) \<Longrightarrow> 3 \<le> ?g r"
    using L r4 by fastforce
  have t2: "sorted_wrt ?P (?C @ ?L @ ?S @ ?M @ ?B)"
    by (rule sorted_wrt_append_ranked[where k = 2, OF s2 t3]) (use C r3 in fastforce)+
  have t1: "sorted_wrt ?P (hs @ ?C @ ?L @ ?S @ ?M @ ?B)"
    by (rule sorted_wrt_append_ranked[where k = 0, OF s1 t2]) (simp_all add: H)
  show ?thesis
    unfolding cands by (rule t1)
qed

lemma ensure_profile_data:
  "ensure_profile h this = Inr (p, this') \<Longrightarrow> data this' = data this"
  by (auto simp: ensure_profile_def dest: profileData_result(8) split: option.splits)

lemma uniqueValues_profileColumn:
  "uniqueValues (profileColumn h rows c) = Set_size (nonNullValues rows c)"
  by (simp add: profileColumn_def Let_def)

lemma distribution_profileColumn:
  "distribution (profileColumn h rows c) =
   (if detectColumnType h (nonNullValues rows c) = Categorical \<and>
       Set_size (nonNullValues rows c) \<le> 20
    then Some (calculateDistribution h (nonNullValues rows c)) else None)"
  by (simp add: profileColumn_def Let_def)

lemma category_rows_charts:
  "\<exists>recs e. generateChartRecommendations sample_host \<lparr>data = category_rows, profile = None\<rparr> =
      Inr (recs, e) \<and> map chart_id recs = [''bar-c'', ''bar-d'', ''pie-c'', ''pie-d'']"
proof -
  let ?eng = "\<lparr>data = category_rows, profile = None\<rparr>"
  let ?c = "profileColumn sample_host category_rows ''c''"
  let ?d = "profileColumn sample_host category_rows ''d''"
  have "data ?eng \<noteq> []" by (simp add: category_rows_def)
  from profileData_returns[OF this, of sample_host]
  obtain p where p: "profileData sample_host ?eng = Inr (p, ?eng\<lparr>profile := Some p\<rparr>)" ..
  have ep: "ensure_profile sample_host ?eng = Inr (p, ?eng\<lparr>profile := Some p\<rparr>)"
    by (simp add: ensure_profile_def p)
  have keys: "Object_keys (data ?eng ! 0) = [''c'', ''d'']"
    by (simp add: category_rows_def Object_keys_def)
  have cols: "columns p = [?c, ?d]"
    using profileData_result(1)[OF p] keys by simp
  have vc: "nonNullValues category_rows ''c'' = [VStr ''x'', VStr ''x'', VStr ''y'', VStr ''y'']"
    by (simp add: category_rows_def nonNullValues_def cell_def)
  have vd: "nonNullValues category_rows ''d'' = [VStr ''u'', VStr ''v'', VStr ''u'', VStr ''v'']"
    by (simp add: category_rows_def nonNullValues_def cell_def)
  have tc: "detectColumnType sample_host [VStr ''x'', VStr ''x'', VStr ''y'', VStr ''y''] = Categorical"
    by (simp add: detectColumnType_def booleanValue_def numericValue_def dateValue_def
        sample_host_def Set_size_def)
  have td: "detectColumnType sample_host [VStr ''u'', VStr ''v'', VStr ''u'', VStr ''v''] = Categorical"
    by (simp add: detectColumnType_def booleanValue_def numericValue_def dateValue_def
        sample_host_def Set_size_def)
  have uc: "Set_size [VStr ''x'', VStr ''x'', VStr ''y'', VStr ''y''] = 2"
    by (simp add: Set_size_def)
  have ud: "Set_size [VStr ''u'', VStr ''v'', VStr ''u'', VStr ''v''] = 2"
    by (simp add: Set_size_def)
  have facts: "ctype ?c = Categorical" "ctype ?d = Categorical"
    "uniqueValues ?c = 2" "uniqueValues ?d = 2"
    "distribution ?c = Some (calculateDistribution sample_host (nonNullValues category_rows ''c''))"
    "distribution ?d = Some (calculateDistribution sample_host (nonNullValues category_rows ''d''))"
    "name ?c = ''c''" "name ?d = ''d''"
    by (simp_all add: ctype_profileColumn uniqueValues_profileColumn distribution_profileColumn
        name_profileColumn vc vd tc td uc ud)
  let ?bar_c = "\<lparr>chart_id = ''bar-c'', chart_type = Bar, histogram_bins = [], priority = 8,
                 chart_columns = [''c'']\<rparr>"
  let ?pie_c = "\<lparr>chart_id = ''pie-c'', chart_type = Pie, histogram_bins = [], priority = 6,
                 chart_columns = [''c'']\<rparr>"
  let ?bar_d = "\<lparr>chart_id = ''bar-d'', chart_type = Bar, histogram_bins = [], priority = 8,
                 chart_columns = [''d'']\<rparr>"
  let ?pie_d = "\<lparr>chart_id = ''pie-d'', chart_type = Pie, histogram_bins = [], priority = 6,
                 chart_columns = [''d'']\<rparr>"
  have cands: "chart_candidates sample_host category_rows p = Inr [?bar_c, ?pie_c, ?bar_d, ?pie_d]"
    by (simp add: chart_candidates_def cols facts categorical_charts_def time_series_charts_def
        scatter_charts_def heatmap_charts_def box_charts_def)
  have sorted: "js_sort (\<lambda>a b. Fin (real_of_int (priority b - priority a)))
                  [?bar_c, ?pie_c, ?bar_d, ?pie_d] = [?bar_c, ?bar_d, ?pie_c, ?pie_d]"
    by (simp add: js_sort_def jgt_def)
  have d: "data (?eng\<lparr>profile := Some p\<rparr>) = category_rows"
    by simp
  have "generateChartRecommendations sample_host ?eng =
          Inr (take 8 [?bar_c, ?bar_d, ?pie_c, ?pie_d], ?eng\<lparr>profile := Some p\<rparr>)"
    unfolding generateChartRecommendations_def ep
    by (simp only: sum.case prod.case d cands sorted)
  then show ?thesis by (intro exI[of _ "[?bar_c, ?bar_d, ?pie_c, ?pie_d]"] exI conjI) simp_all
qed

text \<open>
  C8. Whenever \<open>generateChartRecommendations\<close> returns, it returns at most 8
  recommendations, in descending order of priority; recommendations of equal priority
  keep the order in which the candidates were generated, which is histograms, bar, pie,
  line, scatter, heatmap, box.
\<close>
theorem chart_recommendations_ranked:
  assumes "generateChartRecommendations h this = Inr (recs, this')"
  shows "length recs \<le> 8 \<and>
         sorted_wrt (\<lambda>a b. priority a \<ge> priority b) recs \<and>
         sorted_wrt (\<lambda>a b. priority a = priority b \<longrightarrow>
            generation_rank (chart_type a) \<le> generation_rank (chart_type b)) recs \<and>
         (\<exists>p cands. chart_candidates h (data this) p = Inr cands \<and>
            (\<forall>k. \<exists>m. filter (\<lambda>r. priority r = k) recs =
                       take m (filter (\<lambda>r. priority r = k) cands)))"
proof -
  let ?f = "\<lambda>r. - priority r"
  from assms obtain p cands where ep: "ensure_profile h this = Inr (p, this')"
    and cands: "chart_candidates h (data this') p = Inr cands"
    and recs: "recs = take 8 (js_sort (\<lambda>a b. Fin (real_of_int (priority b - priority a))) cands)"
    unfolding generateChartRecommendations_def by (auto split: sum.splits)
  have recs': "recs = take 8 (sort_key ?f cands)"
    unfolding recs js_sort_priority ..
  have len: "length recs \<le> 8"
    by (simp add: recs')
  have "sorted (map ?f (sort_key ?f cands))"
    by (rule sorted_sort_key)
  then have "sorted_wrt (\<lambda>a b. priority a \<ge> priority b) (sort_key ?f cands)"
    by (simp add: sorted_map)
  then have desc: "sorted_wrt (\<lambda>a b. priority a \<ge> priority b) recs"
    unfolding recs' by (rule sorted_wrt_take_any)
  have "sorted_wrt (\<lambda>a b. ?f a = ?f b \<longrightarrow>
            generation_rank (chart_type a) \<le> generation_rank (chart_type b)) cands"
    using chart_candidates_order[OF cands] by simp
  then have "sorted_wrt (\<lambda>a b. ?f a = ?f b \<longrightarrow>
            generation_rank (chart_type a) \<le> generation_rank (chart_type b)) (sort_key ?f cands)"
    by (rule sort_key_ties)
  then have "sorted_wrt (\<lambda>a b. ?f a = ?f b \<longrightarrow>
            generation_rank (chart_type a) \<le> generation_rank (chart_type b)) recs"
    unfolding recs' by (rule sorted_wrt_take_any)
  then have ties: "sorted_wrt (\<lambda>a b. priority a = priority b \<longrightarrow>
            generation_rank (chart_type a) \<le> generation_rank (chart_type b)) recs"
    by simp
  have stable: "\<exists>m. filter (\<lambda>r. priority r = k) recs = take m (filter (\<lambda>r. priority r = k) cands)"
    for k
  proof -
    have "filter (\<lambda>r. ?f r = - k) (sort_key ?f cands) = filter (\<lambda>r. ?f r = - k) cands"
      by (rule sort_key_stable)
    then have eq: "filter (\<lambda>r. priority r = k) (sort_key ?f cands) =
                   filter (\<lambda>r. priority r = k) cands"
      by simp
    from filter_take_prefix[of "\<lambda>r. priority r = k" 8 "sort_key ?f cands"]
    show ?thesis unfolding recs' eq .
  qed
  have "chart_candidates h (data this) p = Inr cands"
    using cands ensure_profile_data[OF ep] by simp
  with stable have "\<exists>p cands. chart_candidates h (data this) p = Inr cands \<and>
            (\<forall>k. \<exists>m. filter (\<lambda>r. priority r = k) recs =
                       take m (filter (\<lambda>r. priority r = k) cands))"
    by blast
  with len desc ties show ?thesis by blast
qed

theorem chart_recommendations_ranked_witness:
  "\<exists>recs e. generateChartRecommendations sample_host \<lparr>data = category_rows, profile = None\<rparr> =
      Inr (recs, e) \<and>
     map chart_id recs = [''bar-c'', ''bar-d'', ''pie-c'', ''pie-d''] \<and>
     length recs \<le> 8 \<and>
     sorted_wrt (\<lambda>a b. priority a \<ge> priority b) recs \<and>
     sorted_wrt (\<lambda>a b. priority a = priority b \<longrightarrow>
        generation_rank (chart_type a) \<le> generation_rank (chart_type b)) recs \<and>
     (\<exists>p cands. chart_candidates sample_host
          (data \<lparr>data = category_rows, profile = None\<rparr>) p = Inr cands \<and>
        (\<forall>k. \<exists>m. filter (\<lambda>r. priority r = k) recs =
                   take m (filter (\<lambda>r. priority r = k) cands)))"
proof -
  from category_rows_charts obtain recs e
    where ev: "generateChartRecommendations sample_host \<lparr>data = category_rows, profile = None\<rparr> =
                 Inr (recs, e)"
      and ids: "map chart_id recs = [''bar-c'', ''bar-d'', ''pie-c'', ''pie-d'']"
    by (elim exE conjE)
  show ?thesis
    apply (rule exI[of _ recs], rule exI[of _ e])
    apply (insert ev ids chart_recommendations_ranked [OF ev])
    apply (simp only: simp_thms)
    done
qed

section \<open>The schema comes from the first record\<close>

lemma cell_only_fields: "k \<in> set ks \<Longrightarrow> cell (only_fields ks r) k = cell r k"
proof -
  assume k: "k \<in> set ks"
  have "map_of (filter (\<lambda>(k, v). k \<in> set ks) r) k = map_of r k"
    using k by (induction r) auto
  then show ?thesis by (simp add: cell_def only_fields_def)
qed

lemma nonNullValues_only_fields:
  "k \<in> set ks \<Longrightarrow> nonNullValues (map (only_fields ks) rows) k = nonNullValues rows k"
  by (simp add: nonNullValues_def o_def cell_only_fields)

lemma numbersOf_only_fields:
  "k \<in> set ks \<Longrightarrow> numbersOf h (map (only_fields ks) rows) k = numbersOf h rows k"
  by (simp add: numbersOf_def o_def cell_only_fields)

lemma profileColumn_only_fields:
  "k \<in> set ks \<Longrightarrow> profileColumn h (map (only_fields ks) rows) k = profileColumn h rows k"
  by (simp add: profileColumn_def nonNullValues_only_fields)

lemma createHistogram_only_fields:
  "k \<in> set ks \<Longrightarrow> createHistogram h (map (only_fields ks) rows) k = createHistogram h rows k"
  by (simp add: createHistogram_def numbersOf_only_fields)

lemma createTimeSeries_only_fields:
  "a \<in> set ks \<Longrightarrow> b \<in> set ks \<Longrightarrow>
   createTimeSeries (map (only_fields ks) rows) a b = createTimeSeries rows a b"
  by (simp add: createTimeSeries_def filter_map o_def cell_only_fields)

lemma createHeatmap_only_fields:
  "a \<in> set ks \<Longrightarrow> createHeatmap h (map (only_fields ks) rows) a b = createHeatmap h rows a b"
  by (simp add: createHeatmap_def o_def cell_only_fields)

lemma calculateCorrelations_only_fields:
  assumes "\<forall>c\<in>set cols. name c \<in> set ks"
  shows "calculateCorrelations h (map (only_fields ks) rows) cols = calculateCorrelations h rows cols"
proof -
  have mem: "(a, b) \<in> set (pairs xs) \<Longrightarrow> a \<in> set xs \<and> b \<in> set xs" for a b and xs :: "DataColumn list"
    by (induction xs) auto
  show ?thesis
    unfolding calculateCorrelations_def
    by (intro arg_cong[where f = concat] map_cong refl)
       (use assms mem in \<open>auto simp: numbersOf_only_fields\<close>)
qed

lemma detectOutliers_only_fields:
  assumes "\<forall>c\<in>set cols. name c \<in> set ks"
  shows "detectOutliers h (map (only_fields ks) rows) cols = detectOutliers h rows cols"
  unfolding detectOutliers_def
  by (intro foldl_cong refl)
     (use assms in \<open>auto simp: filter_map o_def cell_only_fields split: option.splits\<close>)

lemma histogram_charts_only_fields:
  assumes "\<forall>c\<in>set cols. name c \<in> set ks"
  shows "histogram_charts h (map (only_fields ks) rows) cols = histogram_charts h rows cols"
  using assms
  by (induction cols)
     (simp_all add: createHistogram_only_fields cong: option.case_cong sum.case_cong)

lemma time_series_charts_only_fields:
  assumes "\<forall>c\<in>set ds. name c \<in> set ks" and "\<forall>c\<in>set ns. name c \<in> set ks"
  shows "time_series_charts (map (only_fields ks) rows) ds ns = time_series_charts rows ds ns"
  unfolding time_series_charts_def
  by (intro arg_cong[where f = concat] map_cong refl)
     (use assms in \<open>simp add: createTimeSeries_only_fields\<close>)

lemma heatmap_charts_only_fields:
  assumes "\<forall>c\<in>set cs. name c \<in> set ks"
  shows "heatmap_charts h (map (only_fields ks) rows) cs ns = heatmap_charts h rows cs ns"
  unfolding heatmap_charts_def
  by (intro arg_cong[where f = concat] map_cong refl)
     (use assms in \<open>auto simp: createHeatmap_only_fields dest: in_set_takeD\<close>)

lemma chart_candidates_only_fields:
  assumes "\<forall>c\<in>set (columns p). name c \<in> set ks"
  shows "chart_candidates h (map (only_fields ks) rows) p = chart_candidates h rows p"
  unfolding chart_candidates_def Let_def
  using assms
  by (simp add: histogram_charts_only_fields time_series_charts_only_fields
      heatmap_charts_only_fields cong: sum.case_cong)


lemma only_fields_own_keys: "only_fields (Object_keys r) r = r"
  by (auto simp: only_fields_def Object_keys_def filter_id_conv rev_image_eqI)

lemma calculateCompleteness_only_fields:
  "calculateCompleteness (map (only_fields ks) rows) cols = calculateCompleteness rows cols"
  by (simp add: calculateCompleteness_def)

lemma chart_candidates_profile:
  "columns p0 = columns p \<Longrightarrow> correlations p0 = correlations p \<Longrightarrow>
   chart_candidates h rows p0 = chart_candidates h rows p"
  by (simp add: chart_candidates_def Let_def cong: sum.case_cong)

text \<open>
  C10. The columns of the profile are the keys of the first record, in its key order, and
  \<open>totalColumns\<close> is their number. The fields that only later records have contribute
  nothing: without them the columns (with their null counts), the completeness, the
  correlations and the chart candidates are the same.
\<close>
theorem profile_schema_from_first_record:
  assumes "profileData h eng = Inr (p, eng')"
  shows "map name (columns p) = Object_keys (data eng ! 0) \<and>
         totalColumns p = length (Object_keys (data eng ! 0)) \<and>
         (\<exists>p0 e0.
            profileData h (eng\<lparr>data := map (only_fields (Object_keys (data eng ! 0))) (data eng)\<rparr>)
              = Inr (p0, e0) \<and>
            columns p0 = columns p \<and>
            completeness (dataQuality p0) = completeness (dataQuality p) \<and>
            correlations p0 = correlations p \<and>
            chart_candidates h (map (only_fields (Object_keys (data eng ! 0))) (data eng)) p0 =
              chart_candidates h (data eng) p)"
proof -
  let ?ks = "Object_keys (data eng ! 0)"
  let ?rows0 = "map (only_fields ?ks) (data eng)"
  let ?eng0 = "eng\<lparr>data := ?rows0\<rparr>"
  let ?num = "filter (\<lambda>col. ctype col = Numeric)"
  note r = profileData_result[OF assms]
  have names: "map name (columns p) = ?ks"
    by (simp add: r(1) o_def name_profileColumn)
  then have in_ks: "\<forall>c\<in>set (columns p). name c \<in> set ?ks"
    by (metis image_eqI list.set_map)
  have "data ?eng0 \<noteq> []" using r(9) by simp
  from profileData_returns[OF this, of h]
  obtain p0 where p0: "profileData h ?eng0 = Inr (p0, ?eng0\<lparr>profile := Some p0\<rparr>)" ..
  note r0 = profileData_result[OF p0]
  have "?rows0 ! 0 = only_fields ?ks (data eng ! 0)"
    using r(9) by simp
  then have keys0: "Object_keys (data ?eng0 ! 0) = ?ks"
    by (simp add: only_fields_own_keys)
  have "columns p0 = map (profileColumn h ?rows0) ?ks"
    using r0(1) keys0 by simp
  also have "\<dots> = map (profileColumn h (data eng)) ?ks"
    by (rule map_cong) (simp_all add: profileColumn_only_fields)
  finally have cols: "columns p0 = columns p"
    by (simp add: r(1))
  have compl: "completeness (dataQuality p0) = completeness (dataQuality p)"
    using r0(5) r(5) by (simp add: cols calculateCompleteness_only_fields)
  have "\<forall>c\<in>set (?num (columns p)). name c \<in> set ?ks"
    using in_ks by simp
  then have "calculateCorrelations h ?rows0 (?num (columns p)) =
             calculateCorrelations h (data eng) (?num (columns p))"
    by (rule calculateCorrelations_only_fields)
  then have corrs: "correlations p0 = correlations p"
    using r0(4) r(4) by (simp add: cols)
  have "chart_candidates h ?rows0 p0 = chart_candidates h ?rows0 p"
    using cols corrs by (rule chart_candidates_profile)
  also have "\<dots> = chart_candidates h (data eng) p"
    using in_ks by (rule chart_candidates_only_fields)
  finally have charts: "chart_candidates h ?rows0 p0 = chart_candidates h (data eng) p" .
  from p0 cols compl corrs charts
  have "\<exists>p0 e0. profileData h ?eng0 = Inr (p0, e0) \<and> columns p0 = columns p \<and>
            completeness (dataQuality p0) = completeness (dataQuality p) \<and>
            correlations p0 = correlations p \<and>
            chart_candidates h ?rows0 p0 = chart_candidates h (data eng) p"
    by blast
  with names r(2) show ?thesis by blast
qed

theorem profile_schema_from_first_record_witness:
  "\<exists>p e. profileData sample_host \<lparr>data = extra_field_rows, profile = None\<rparr> = Inr (p, e) \<and>
     map name (columns p) = [''c''] \<and> totalColumns p = 1 \<and>
     (\<exists>p0 e0.
        profileData sample_host
          \<lparr>data = [[(''c'', VStr ''x'')], [(''c'', VStr ''y'')]], profile = None\<rparr> = Inr (p0, e0) \<and>
        columns p0 = columns p \<and>
        completeness (dataQuality p0) = completeness (dataQuality p) \<and>
        correlations p0 = correlations p \<and>
        chart_candidates sample_host [[(''c'', VStr ''x'')], [(''c'', VStr ''y'')]] p0 =
          chart_candidates sample_host extra_field_rows p)"
proof -
  let ?eng = "\<lparr>data = extra_field_rows, profile = None\<rparr>"
  have "data ?eng \<noteq> []" by (simp add: extra_field_rows_def)
  from profileData_returns[OF this, of sample_host]
  obtain p where p: "profileData sample_host ?eng = Inr (p, ?eng\<lparr>profile := Some p\<rparr>)" ..
  show ?thesis
    apply (rule exI[of _ p], rule exI[of _ "?eng\<lparr>profile := Some p\<rparr>"])
    apply (insert p profile_schema_from_first_record [OF p])
    apply (simp add: extra_field_rows_def Object_keys_def only_fields_def)
    done
qed

end
